theory Spec2Isabelle
  imports Main "HOL-Library.Char_ord" "HOL-Library.List_Lexorder" "HOL-Library.Multiset"
begin

section \<open>JavaScript values the server computes with\<close>

subsection \<open>Time values and the calendar\<close>

text \<open>
  A \<open>Date\<close> object holds a time value: milliseconds since 1970-01-01T00:00:00Z, or NaN
  (an Invalid Date). Time values are \<open>int\<close>; a \<open>Date\<close> is an \<open>int option\<close> with \<open>None\<close> for
  the Invalid Date. The functions below are ECMAScript's abstract operations of the same
  names (ECMA-262, Date objects).
\<close>

type_synonym jsdate = "int option"

definition msPerDay :: int where
  "msPerDay = 86400000"

definition Day :: "int \<Rightarrow> int" where
  "Day t = t div msPerDay"

definition TimeWithinDay :: "int \<Rightarrow> int" where
  "TimeWithinDay t = t mod msPerDay"

definition WeekDay :: "int \<Rightarrow> int" where
  "WeekDay t = (Day t + 4) mod 7"

definition TimeClip :: "int \<Rightarrow> jsdate" where
  "TimeClip t = (if \<bar>t\<bar> > 8640000000000000 then None else Some t)"

text \<open>
  The calendar, as ECMA-262 defines it: a year starts on the day \<open>DayFromYear\<close>, the year
  of a day is the last one that has started by then, and month and day of the month are
  read off the day within the year.
\<close>

definition DaysInYear :: "int \<Rightarrow> int" where
  "DaysInYear y =
     (if y mod 4 \<noteq> 0 then 365 else if y mod 100 \<noteq> 0 then 366
      else if y mod 400 \<noteq> 0 then 365 else 366)"

definition DayFromYear :: "int \<Rightarrow> int" where
  "DayFromYear y = 365 * (y - 1970) + (y - 1969) div 4 - (y - 1901) div 100 + (y - 1601) div 400"

function year_down :: "int \<Rightarrow> int \<Rightarrow> int" where
  "year_down d y = (if d < DayFromYear y then year_down d (y - 1) else y)"
  by pat_completeness auto
termination
proof (relation "measure (\<lambda>(d, y). nat (DayFromYear y - d))")
  show "wf (measure (\<lambda>(d, y). nat (DayFromYear y - d)))"
    by simp
next
  fix d y :: int
  assume started: "d < DayFromYear y"
  have "(y - 1 - 1969) div 4 \<le> (y - 1969) div 4"
    and "(y - 1901) div 100 \<le> (y - 1 - 1901) div 100 + 1"
    and "(y - 1 - 1601) div 400 \<le> (y - 1601) div 400"
    by (simp add: zdiv_mono1, linarith, simp add: zdiv_mono1)
  moreover have "365 * (y - 1 - 1970) + p - q + r < 365 * (y - 1970) + p' - q' + r'"
    if "p \<le> p'" "q' \<le> q + 1" "r \<le> r'" for p p' q q' r r' :: int
    using that by simp
  ultimately have "DayFromYear (y - 1) < DayFromYear y"
    unfolding DayFromYear_def by blast
  with started show "((d, y - 1), (d, y)) \<in> measure (\<lambda>(d, y). nat (DayFromYear y - d))"
    by simp
qed

function year_up :: "int \<Rightarrow> int \<Rightarrow> int" where
  "year_up d y = (if DayFromYear (y + 1) \<le> d then year_up d (y + 1) else y)"
  by pat_completeness auto
termination
proof (relation "measure (\<lambda>(d, y). nat (d + 1 - DayFromYear (y + 1)))")
  show "wf (measure (\<lambda>(d, y). nat (d + 1 - DayFromYear (y + 1))))"
    by simp
next
  fix d y :: int
  assume started: "DayFromYear (y + 1) \<le> d"
  have "(y + 1 - 1969) div 4 \<le> (y + 1 + 1 - 1969) div 4"
    and "(y + 1 + 1 - 1901) div 100 \<le> (y + 1 - 1901) div 100 + 1"
    and "(y + 1 - 1601) div 400 \<le> (y + 1 + 1 - 1601) div 400"
    by (simp add: zdiv_mono1, linarith, simp add: zdiv_mono1)
  moreover have "365 * (y + 1 - 1970) + p - q + r < 365 * (y + 1 + 1 - 1970) + p' - q' + r'"
    if "p \<le> p'" "q' \<le> q + 1" "r \<le> r'" for p p' q q' r r' :: int
    using that by simp
  ultimately have "DayFromYear (y + 1) < DayFromYear (y + 1 + 1)"
    unfolding DayFromYear_def by blast
  with started
  show "((d, y + 1), (d, y)) \<in> measure (\<lambda>(d, y). nat (d + 1 - DayFromYear (y + 1)))"
    by simp
qed

declare year_down.simps [simp del] year_up.simps [simp del]

definition YearFromTime :: "int \<Rightarrow> int" where
  \<comment> \<open>The largest year that starts on or before the day of \<open>t\<close>, found from a guess: down to
      a year that has started, then up to the last such year.\<close>
  "YearFromTime t = year_up (Day t) (year_down (Day t) (1970 + Day t div 365))"

definition InLeapYear :: "int \<Rightarrow> int" where
  "InLeapYear t = (if DaysInYear (YearFromTime t) = 366 then 1 else 0)"

definition DayWithinYear :: "int \<Rightarrow> int" where
  "DayWithinYear t = Day t - DayFromYear (YearFromTime t)"

definition month_starts :: "int \<Rightarrow> int list" where
  \<comment> \<open>The day within the year on which each month starts; \<open>leap\<close> is 1 in a leap year.\<close>
  "month_starts leap =
     [0, 31, 59 + leap, 90 + leap, 120 + leap, 151 + leap, 181 + leap, 212 + leap,
      243 + leap, 273 + leap, 304 + leap, 334 + leap]"

definition MonthFromTime :: "int \<Rightarrow> int" where
  \<comment> \<open>0 is January, 11 is December: the number of months after January that have started.\<close>
  "MonthFromTime t =
     int (length (filter (\<lambda>s. s \<le> DayWithinYear t) (tl (month_starts (InLeapYear t)))))"

definition DateFromTime :: "int \<Rightarrow> int" where
  "DateFromTime t =
     DayWithinYear t - month_starts (InLeapYear t) ! nat (MonthFromTime t) + 1"

definition MakeDay :: "int \<Rightarrow> int \<Rightarrow> int \<Rightarrow> int" where
  \<comment> \<open>The day number of the first of the month \<open>month\<close> (0 is January; 12 and more run into
      the next years), plus \<open>dt - 1\<close>.\<close>
  "MakeDay year month dt =
     (let ym = year + month div 12;
          mn = month mod 12
      in DayFromYear ym + month_starts (if DaysInYear ym = 366 then 1 else 0) ! nat mn + dt - 1)"

definition MakeDate :: "int \<Rightarrow> int \<Rightarrow> int" where
  "MakeDate day time = day * msPerDay + time"

subsection \<open>The host: time zone, date parser and collation\<close>

text \<open>
  What Node.js takes from the machine it runs on. \<open>tzaUTC t\<close> is the local offset from UTC,
  in milliseconds, at the UTC time value \<open>t\<close> (ECMAScript's LocalTZA(t, true)); \<open>tzaLocal t\<close>
  is the offset to use for the local time value \<open>t\<close> (LocalTZA(t, false)). \<open>parseDate\<close> is
  \<open>Date.parse\<close>: ECMAScript fixes it on the ISO format and leaves every other string to
  the implementation, so it is a parameter; \<open>None\<close> is NaN. \<open>localeCompare h a b\<close> is
  \<open>a.localeCompare(b)\<close>, called with no locale: the comparison of the two strings in the
  collation of the host's default locale, negative when \<open>a\<close> comes first, positive when
  \<open>b\<close> does, and 0 when neither does. It is not the order of the character codes.
\<close>

record host =
  tzaUTC :: "int \<Rightarrow> int"
  tzaLocal :: "int \<Rightarrow> int"
  parseDate :: "string \<Rightarrow> int option"
  localeCompare :: "string \<Rightarrow> string \<Rightarrow> int"

definition LocalTime :: "host \<Rightarrow> int \<Rightarrow> int" where
  "LocalTime h t = t + tzaUTC h t"

definition UTC :: "host \<Rightarrow> int \<Rightarrow> int" where
  "UTC h t = t - tzaLocal h t"

definition new_Date :: "host \<Rightarrow> string \<Rightarrow> jsdate" where
  \<comment> \<open>\<open>new Date(string)\<close>\<close>
  "new_Date h s = (case parseDate h s of None \<Rightarrow> None | Some tv \<Rightarrow> TimeClip tv)"

definition getDay :: "host \<Rightarrow> jsdate \<Rightarrow> int option" where
  \<comment> \<open>Day of the week in local time, 0 for Sunday; NaN on an Invalid Date.\<close>
  "getDay h date = (case date of None \<Rightarrow> None | Some t \<Rightarrow> Some (WeekDay (LocalTime h t)))"

definition getDate :: "host \<Rightarrow> jsdate \<Rightarrow> int option" where
  \<comment> \<open>Day of the month in local time; NaN on an Invalid Date.\<close>
  "getDate h date = (case date of None \<Rightarrow> None | Some t \<Rightarrow> Some (DateFromTime (LocalTime h t)))"

definition setDate :: "host \<Rightarrow> jsdate \<Rightarrow> int option \<Rightarrow> jsdate" where
  \<comment> \<open>The time value \<open>date.setDate(dt)\<close> leaves in \<open>date\<close>.\<close>
  "setDate h date dt =
     (case date of None \<Rightarrow> None
      | Some t0 \<Rightarrow>
          (case dt of None \<Rightarrow> None
           | Some d \<Rightarrow>
               (let t = LocalTime h t0;
                    newDate = MakeDate (MakeDay (YearFromTime t) (MonthFromTime t) d) (TimeWithinDay t)
                in TimeClip (UTC h newDate))))"

subsection \<open>Numbers and dates as strings\<close>

fun digits :: "nat \<Rightarrow> string" where
  "digits n =
     (if n < 10 then [''0123456789'' ! n]
      else digits (n div 10) @ [''0123456789'' ! (n mod 10)])"

declare digits.simps [simp del]

definition padStart :: "nat \<Rightarrow> string \<Rightarrow> string" where
  \<comment> \<open>\<open>s.padStart(k, '0')\<close>\<close>
  "padStart k s = replicate (k - length s) CHR ''0'' @ s"

definition int_toString :: "int \<Rightarrow> string" where
  "int_toString i = (if i < 0 then ''-'' @ digits (nat (- i)) else digits (nat i))"

definition split_first :: "char \<Rightarrow> string \<Rightarrow> string" where
  \<comment> \<open>\<open>s.split(c)[0]\<close>: the characters before the first \<open>c\<close>.\<close>
  "split_first c s = takeWhile (\<lambda>x. x \<noteq> c) s"

definition toISOString :: "int \<Rightarrow> string" where
  \<comment> \<open>On a valid time value: \<open>YYYY-MM-DDTHH:mm:ss.sssZ\<close>, in UTC; a year outside 0..9999 is
      written with a sign and six digits.\<close>
  "toISOString t =
     (let y = YearFromTime t;
          tw = TimeWithinDay t
      in (if 0 \<le> y \<and> y \<le> 9999 then padStart 4 (digits (nat y))
          else (if y < 0 then ''-'' else ''+'') @ padStart 6 (digits (nat \<bar>y\<bar>)))
         @ ''-'' @ padStart 2 (digits (nat (MonthFromTime t + 1)))
         @ ''-'' @ padStart 2 (digits (nat (DateFromTime t)))
         @ ''T'' @ padStart 2 (digits (nat (tw div 3600000)))
         @ '':'' @ padStart 2 (digits (nat (tw div 60000 mod 60)))
         @ '':'' @ padStart 2 (digits (nat (tw div 1000 mod 60)))
         @ ''.'' @ padStart 3 (digits (nat (tw mod 1000)))
         @ ''Z'')"

definition monthNames :: "string list" where
  "monthNames = [''January'', ''February'', ''March'', ''April'', ''May'', ''June'', ''July'',
     ''August'', ''September'', ''October'', ''November'', ''December'']"

definition toLocaleDateString :: "host \<Rightarrow> int \<Rightarrow> string" where
  \<comment> \<open>\<open>toLocaleDateString('en-US', {month: 'long', day: 'numeric', year: 'numeric'})\<close>
      on a valid time value, for a year of the common era: \<open>March 20, 2024\<close>.\<close>
  "toLocaleDateString h t =
     (let l = LocalTime h t
      in monthNames ! nat (MonthFromTime l) @ '' '' @ int_toString (DateFromTime l)
         @ '', '' @ int_toString (YearFromTime l))"

text \<open>
  A JSON number is a decimal: \<open>Dec m sc\<close> is \<open>m / 10 ^ sc\<close>. \<open>Number_toString\<close> is
  ECMAScript's Number::toString on the digits \<open>s\<close>, their count \<open>k\<close> and the exponent \<open>n\<close>
  of the value (\<open>0.s * 10 ^ n\<close>); those are the digits of the decimal itself as long as it
  has at most 15 significant digits, which a double keeps exactly.
\<close>

datatype jsnum = Dec int nat

definition Number_toString :: "jsnum \<Rightarrow> string" where
  "Number_toString x =
     (case x of Dec m sc \<Rightarrow>
        if m = 0 then ''0''
        else
          (let ds = digits (nat \<bar>m\<bar>);
               s = rev (dropWhile (\<lambda>c. c = CHR ''0'') (rev ds));
               k = int (length s);
               n = int (length ds) - int sc;
               e = n - 1
           in (if m < 0 then ''-'' else '''')
              @ (if k \<le> n \<and> n \<le> 21 then s @ replicate (nat (n - k)) CHR ''0''
                 else if 0 < n \<and> n \<le> 21 then take (nat n) s @ ''.'' @ drop (nat n) s
                 else if - 6 < n \<and> n \<le> 0 then ''0.'' @ replicate (nat (- n)) CHR ''0'' @ s
                 else (if k = 1 then s else take 1 s @ ''.'' @ drop 1 s)
                      @ ''e'' @ (if e < 0 then ''-'' else ''+'') @ digits (nat \<bar>e\<bar>))))"

definition truthy_num :: "jsnum \<Rightarrow> bool" where
  \<comment> \<open>ToBoolean of a number: false on 0 only (JSON has no NaN).\<close>
  "truthy_num x = (case x of Dec m sc \<Rightarrow> m \<noteq> 0)"

section \<open>The server (\<open>app.js\<close>)\<close>

text \<open>
  The model follows \<open>app.js\<close>. The repository holds an earlier copy of the file as well;
  its \<open>fetchEarningsData\<close> has the same window, grouping and loop over the dates, line for
  line, and differs in what it does on failure (no test that the answer is an array, and a
  \<open>catch\<close> that returns \<open>cachedData\<close>).
\<close>

subsection \<open>Data\<close>

text \<open>
  A record of the earnings API's answer, with the fields the server reads: \<open>name\<close> and
  \<open>epsEstimated\<close> may be missing or \<open>null\<close> (\<open>None\<close>). An entry is what the server keeps of
  it under its date, and a card is one object of the array it serves.
\<close>

record earning =
  symbol :: string
  name :: "string option"
  date :: string
  epsEstimated :: "jsnum option"

record entry =
  e_symbol :: string
  e_name :: string
  eps :: "jsnum option"

record card =
  cvalue :: string
  title :: string
  subtitle :: string

text \<open>
  \<open>earningsByDate\<close> is an object used as a dictionary: its keys in the order they were
  first written, each with its array.
\<close>

type_synonym groups = "(string \<times> entry list) list"

datatype js_error = RangeError

text \<open>
  What one call of \<open>fetchEarningsData\<close> meets outside the program: the clock at
  \<open>new Date()\<close> (line 49) and again inside \<open>getSampleData\<close> (line 230), the answer of the
  API for the window asked (\<open>fetch\<close> or \<open>response.json()\<close> throws, the JSON is not an
  array, or it is an array of records), and whether \<open>fs.writeFileSync\<close> succeeds; a write
  that throws leaves some file behind, or none.
\<close>

datatype api_outcome = FetchThrows | NotArray | Records "earning list"

datatype write_outcome = Written | WriteThrows "card list option"

record world =
  now :: int
  fetch :: "string \<Rightarrow> string \<Rightarrow> api_outcome"
  writeFileSync :: write_outcome
  now_sample :: int

text \<open>
  The state that outlives a call: the variable \<open>cachedData\<close>, which \<open>GET /api/earnings\<close>
  serves, and the cards held by the file \<open>earnings_data.json\<close> (\<open>None\<close>: no file).
\<close>

record server_state =
  cachedData :: "card list"
  dataFile :: "card list option"

record refresh_reply =
  success :: bool
  message :: string
  count :: nat

subsection \<open>\<open>formatDate\<close> and the fetch window\<close>

definition formatDate :: "jsdate \<Rightarrow> js_error + string" where
  \<comment> \<open>\<open>date.toISOString().split('T')[0]\<close>; \<open>toISOString\<close> throws a RangeError on an
      Invalid Date.\<close>
  "formatDate d =
     (case d of None \<Rightarrow> Inl RangeError | Some t \<Rightarrow> Inr (split_first CHR ''T'' (toISOString t)))"

definition computeFetchWindow :: "host \<Rightarrow> int \<Rightarrow> js_error + string \<times> string" where
  \<comment> \<open>Lines 49 to 54 of \<open>fetchEarningsData\<close>: \<open>(fromDate, toDate)\<close>.\<close>
  "computeFetchWindow h t =
     (let today = Some t;
          endDate = setDate h today (map_option (\<lambda>d. d + 14) (getDate h today))
      in case formatDate today of
           Inl e \<Rightarrow> Inl e
         | Inr fromDate \<Rightarrow>
             (case formatDate endDate of
                Inl e \<Rightarrow> Inl e
              | Inr toDate \<Rightarrow> Inr (fromDate, toDate)))"

subsection \<open>Grouping by date\<close>

fun push_entry :: "string \<Rightarrow> entry \<Rightarrow> groups \<Rightarrow> groups" where
  \<comment> \<open>\<open>if (!earningsByDate[k]) earningsByDate[k] = []; earningsByDate[k].push(e)\<close>\<close>
  "push_entry k e [] = [(k, [e])]"
| "push_entry k e ((k', es) # rest) =
     (if k' = k then (k', es @ [e]) # rest else (k', es) # push_entry k e rest)"

definition name_or_symbol :: "earning \<Rightarrow> string" where
  \<comment> \<open>\<open>earning.name || earning.symbol\<close>: the empty string is falsy too.\<close>
  "name_or_symbol earning =
     (case name earning of None \<Rightarrow> symbol earning
      | Some n \<Rightarrow> if n = [] then symbol earning else n)"

definition is_weekend :: "int option \<Rightarrow> bool" where
  \<comment> \<open>\<open>day === 0 || day === 6\<close>\<close>
  "is_weekend day = (day = Some 0 \<or> day = Some 6)"

fun group_records :: "host \<Rightarrow> earning list \<Rightarrow> groups \<Rightarrow> js_error + groups" where
  \<comment> \<open>The \<open>forEach\<close> of lines 77 to 97, from the dictionary built so far.\<close>
  "group_records h [] earningsByDate = Inr earningsByDate"
| "group_records h (earning # rest) earningsByDate =
     (let d = new_Date h (split_first CHR '' '' (date earning));
          day = getDay h d
      in if is_weekend day then group_records h rest earningsByDate
         else
           (case formatDate d of
              Inl e \<Rightarrow> Inl e
            | Inr formattedDate \<Rightarrow>
                group_records h rest
                  (push_entry formattedDate
                     \<lparr>e_symbol = symbol earning, e_name = name_or_symbol earning,
                      eps = epsEstimated earning\<rparr>
                     earningsByDate)))"

subsection \<open>The cards\<close>

definition header_card :: "host \<Rightarrow> int \<Rightarrow> card" where
  "header_card h today =
     \<lparr>cvalue = ''The Most Anticipated Earnings Releases'', title = '''',
      subtitle = ''for the period beginning '' @ toLocaleDateString h today\<rparr>"

definition note_card :: card where
  "note_card = \<lparr>cvalue = ''(only showing confirmed release dates)'', title = '''', subtitle = ''''\<rparr>"

definition separator_card :: card where
  "separator_card = \<lparr>cvalue = ''---'', title = '''', subtitle = ''''\<rparr>"

definition dayLabels :: "string list" where
  "dayLabels = [''Monday'', ''Tuesday'', ''Wednesday'', ''Thursday'', ''Friday'']"

definition day_card :: "host \<Rightarrow> nat \<Rightarrow> jsdate \<Rightarrow> card" where
  \<comment> \<open>\<open>`${dayName} - ${displayDate}`\<close>, with \<open>NaN\<close> for the day of an Invalid Date.\<close>
  "day_card h businessDaysCounter d =
     \<lparr>cvalue = dayLabels ! (businessDaysCounter mod 5) @ '' - ''
        @ (case getDate h d of None \<Rightarrow> ''NaN'' | Some displayDate \<Rightarrow> int_toString displayDate),
      title = '''', subtitle = ''''\<rparr>"

definition company_card :: "entry \<Rightarrow> card" where
  \<comment> \<open>\<open>earning.eps ? `Est. EPS: $${earning.eps}` : ""\<close>\<close>
  "company_card earning =
     \<lparr>cvalue = e_symbol earning, title = e_name earning,
      subtitle = (case eps earning of
                    None \<Rightarrow> ''''
                  | Some x \<Rightarrow> if truthy_num x then ''Est. EPS: $'' @ Number_toString x else '''')\<rparr>"

subsection \<open>Sorting\<close>

text \<open>
  \<open>xs.sort(cmp)\<close> puts \<open>a\<close> before \<open>b\<close> when \<open>cmp(a, b) < 0\<close> and keeps the order of
  elements that compare as equal (the sort is stable). ECMAScript fixes the result when
  \<open>cmp\<close> is a consistent comparator, and leaves the order to the implementation when it is
  not; the result is a rearrangement of \<open>xs\<close> either way. Here the sort is by insertion
  from the right, each element going before the first one that it does not come after.
\<close>

fun insert_sorted :: "('a \<Rightarrow> 'a \<Rightarrow> int) \<Rightarrow> 'a \<Rightarrow> 'a list \<Rightarrow> 'a list" where
  "insert_sorted cmp x [] = [x]"
| "insert_sorted cmp x (y # ys) =
     (if cmp x y \<le> 0 then x # y # ys else y # insert_sorted cmp x ys)"

definition Array_sort :: "('a \<Rightarrow> 'a \<Rightarrow> int) \<Rightarrow> 'a list \<Rightarrow> 'a list" where
  "Array_sort cmp xs = foldr (insert_sorted cmp) xs []"

subsection \<open>The loop over the dates\<close>

fun date_loop :: "host \<Rightarrow> nat \<Rightarrow> groups \<Rightarrow> card list" where
  \<comment> \<open>The cards that the \<open>for\<close> loop of lines 122 to 164 pushes, from the counter's value.\<close>
  "date_loop h businessDaysCounter [] = []"
| "date_loop h businessDaysCounter ((dateStr, earnings) # rest) =
     (if businessDaysCounter \<ge> 10 then []
      else
        (let d = new_Date h dateStr;
             dayOfWeek = getDay h d
         in if is_weekend dayOfWeek then date_loop h businessDaysCounter rest
            else
              day_card h businessDaysCounter d
              # map company_card
                  (Array_sort (\<lambda>a b. localeCompare h (e_symbol a) (e_symbol b)) earnings)
              @ (if businessDaysCounter < 9 then [separator_card] else [])
              @ date_loop h (Suc businessDaysCounter) rest))"

definition transform :: "host \<Rightarrow> int \<Rightarrow> groups \<Rightarrow> card list" where
  \<comment> \<open>Lines 100 to 164: \<open>dakboardData\<close> from \<open>earningsByDate\<close>.\<close>
  "transform h today earningsByDate =
     (let dateEntries = Array_sort (\<lambda>(a, x) (b, y). localeCompare h a b) earningsByDate
      in header_card h today # note_card # date_loop h 0 dateEntries)"

definition getSampleData :: "host \<Rightarrow> int \<Rightarrow> card list" where
  "getSampleData h today =
     [header_card h today,
      note_card,
      \<lparr>cvalue = ''Monday - 14'', title = '''', subtitle = ''''\<rparr>,
      \<lparr>cvalue = ''AMEX'', title = ''American Express'', subtitle = ''Est. EPS: $2.45''\<rparr>,
      \<lparr>cvalue = ''MTB'', title = ''M&T Bank'', subtitle = ''Est. EPS: $3.12''\<rparr>,
      \<lparr>cvalue = ''FBK'', title = ''First Bank'', subtitle = ''Est. EPS: $0.78''\<rparr>,
      \<lparr>cvalue = ''PNFP'', title = ''Pinnacle Financial'', subtitle = ''Est. EPS: $1.65''\<rparr>,
      \<lparr>cvalue = ''KSTR'', title = ''Kestra Financial'', subtitle = ''Est. EPS: $0.92''\<rparr>,
      \<lparr>cvalue = ''---'', title = '''', subtitle = ''''\<rparr>,
      \<lparr>cvalue = ''Tuesday - 15'', title = '''', subtitle = ''''\<rparr>,
      \<lparr>cvalue = ''BAC'', title = ''Bank of America'', subtitle = ''Est. EPS: $0.82''\<rparr>,
      \<lparr>cvalue = ''UAL'', title = ''United Airlines'', subtitle = ''Est. EPS: $2.34''\<rparr>,
      \<lparr>cvalue = ''C'', title = ''Citigroup'', subtitle = ''Est. EPS: $1.42''\<rparr>,
      \<lparr>cvalue = ''JNJ'', title = ''Johnson & Johnson'', subtitle = ''Est. EPS: $2.75''\<rparr>,
      \<lparr>cvalue = ''---'', title = '''', subtitle = ''''\<rparr>,
      \<lparr>cvalue = ''Wednesday - 16'', title = '''', subtitle = ''''\<rparr>,
      \<lparr>cvalue = ''ASML'', title = ''ASML Holding'', subtitle = ''Est. EPS: $3.54''\<rparr>,
      \<lparr>cvalue = ''AA'', title = ''Alcoa'', subtitle = ''Est. EPS: $0.22''\<rparr>,
      \<lparr>cvalue = ''PGR'', title = ''Progressive'', subtitle = ''Est. EPS: $2.40''\<rparr>,
      \<lparr>cvalue = ''ABT'', title = ''Abbott Laboratories'', subtitle = ''Est. EPS: $1.12''\<rparr>,
      \<lparr>cvalue = ''---'', title = '''', subtitle = ''''\<rparr>,
      \<lparr>cvalue = ''Thursday - 17'', title = '''', subtitle = ''''\<rparr>,
      \<lparr>cvalue = ''NFLX'', title = ''Netflix'', subtitle = ''Est. EPS: $4.72''\<rparr>,
      \<lparr>cvalue = ''TSM'', title = ''Taiwan Semiconductor'', subtitle = ''Est. EPS: $1.32''\<rparr>,
      \<lparr>cvalue = ''UNH'', title = ''UnitedHealth Group'', subtitle = ''Est. EPS: $6.68''\<rparr>,
      \<lparr>cvalue = ''---'', title = '''', subtitle = ''''\<rparr>,
      \<lparr>cvalue = ''Friday - 18'', title = '''', subtitle = ''''\<rparr>,
      \<lparr>cvalue = ''ALLY'', title = ''Ally Financial'', subtitle = ''Est. EPS: $0.54''\<rparr>,
      \<lparr>cvalue = ''DHI'', title = ''D.R. Horton'', subtitle = ''Est. EPS: $3.24''\<rparr>,
      \<lparr>cvalue = ''---'', title = '''', subtitle = ''''\<rparr>,
      \<lparr>cvalue = ''Monday - 21'', title = '''', subtitle = ''''\<rparr>,
      \<lparr>cvalue = ''AZZ'', title = ''AZZ Inc'', subtitle = ''Est. EPS: $0.92''\<rparr>,
      \<lparr>cvalue = ''AGNC'', title = ''AGNC Investment'', subtitle = ''Est. EPS: $0.54''\<rparr>,
      \<lparr>cvalue = ''---'', title = '''', subtitle = ''''\<rparr>,
      \<lparr>cvalue = ''Tuesday - 22'', title = '''', subtitle = ''''\<rparr>,
      \<lparr>cvalue = ''TSLA'', title = ''Tesla'', subtitle = ''Est. EPS: $0.67''\<rparr>,
      \<lparr>cvalue = ''VZ'', title = ''Verizon'', subtitle = ''Est. EPS: $1.18''\<rparr>,
      \<lparr>cvalue = ''---'', title = '''', subtitle = ''''\<rparr>,
      \<lparr>cvalue = ''Wednesday - 23'', title = '''', subtitle = ''''\<rparr>,
      \<lparr>cvalue = ''IBM'', title = ''IBM'', subtitle = ''Est. EPS: $1.58''\<rparr>,
      \<lparr>cvalue = ''T'', title = ''AT&T'', subtitle = ''Est. EPS: $0.57''\<rparr>,
      \<lparr>cvalue = ''---'', title = '''', subtitle = ''''\<rparr>,
      \<lparr>cvalue = ''Thursday - 24'', title = '''', subtitle = ''''\<rparr>,
      \<lparr>cvalue = ''INTC'', title = ''Intel'', subtitle = ''Est. EPS: $0.13''\<rparr>,
      \<lparr>cvalue = ''MS'', title = ''Morgan Stanley'', subtitle = ''Est. EPS: $1.72''\<rparr>,
      \<lparr>cvalue = ''---'', title = '''', subtitle = ''''\<rparr>,
      \<lparr>cvalue = ''Friday - 25'', title = '''', subtitle = ''''\<rparr>,
      \<lparr>cvalue = ''CVX'', title = ''Chevron'', subtitle = ''Est. EPS: $3.05''\<rparr>,
      \<lparr>cvalue = ''XOM'', title = ''Exxon Mobil'', subtitle = ''Est. EPS: $2.12''\<rparr>]"

subsection \<open>\<open>fetchEarningsData\<close> and the refresh route\<close>

definition fetchEarningsData :: "host \<Rightarrow> world \<Rightarrow> server_state \<Rightarrow> card list \<times> server_state" where
  \<comment> \<open>The cards returned and the state left. Every exception of the \<open>try\<close> block ends in
      the \<open>catch\<close>, which returns the sample data.\<close>
  "fetchEarningsData h w st =
     (case computeFetchWindow h (now w) of
        Inl e \<Rightarrow> (getSampleData h (now_sample w), st)
      | Inr (fromDate, toDate) \<Rightarrow>
          (case fetch w fromDate toDate of
             FetchThrows \<Rightarrow> (getSampleData h (now_sample w), st)
           | NotArray \<Rightarrow> (getSampleData h (now_sample w), st)
           | Records data \<Rightarrow>
               (case group_records h data [] of
                  Inl e \<Rightarrow> (getSampleData h (now_sample w), st)
                | Inr earningsByDate \<Rightarrow>
                    (let dakboardData = transform h (now w) earningsByDate
                     in case writeFileSync w of
                          WriteThrows f \<Rightarrow> (getSampleData h (now_sample w), st\<lparr>dataFile := f\<rparr>)
                        | Written \<Rightarrow>
                            (dakboardData,
                             st\<lparr>dataFile := Some dakboardData, cachedData := dakboardData\<rparr>)))))"

definition api_refresh :: "host \<Rightarrow> world \<Rightarrow> server_state \<Rightarrow> refresh_reply \<times> server_state" where
  \<comment> \<open>\<open>GET /api/refresh\<close>: the JSON sent and the state left.\<close>
  "api_refresh h w st =
     (let (data, st') = fetchEarningsData h w st
      in (\<lparr>success = True, message = ''Data refreshed successfully'', count = length data\<rparr>, st'))"

definition api_earnings :: "server_state \<Rightarrow> card list" where
  \<comment> \<open>\<open>GET /api/earnings\<close>\<close>
  "api_earnings st = cachedData st"

subsection \<open>Hosts\<close>

text \<open>
  The date-only form \<open>YYYY-MM-DD\<close> of the ISO format, which ECMAScript reads as midnight
  UTC of that day. \<open>iso_date_only\<close> knows no other string.
\<close>

definition digit_val :: "char \<Rightarrow> nat option" where
  "digit_val c = (let n = of_char c in if 48 \<le> n \<and> n \<le> (57::nat) then Some (n - 48) else None)"

fun number_of :: "string \<Rightarrow> nat option" where
  "number_of [] = None"
| "number_of [c] = digit_val c"
| "number_of (c # cs) =
     (case digit_val c of None \<Rightarrow> None
      | Some a \<Rightarrow> (case number_of cs of None \<Rightarrow> None | Some b \<Rightarrow> Some (a * 10 ^ length cs + b)))"

definition iso_date_only :: "string \<Rightarrow> int option" where
  "iso_date_only s =
     (if length s = 10 \<and> s ! 4 = CHR ''-'' \<and> s ! 7 = CHR ''-'' then
        (case (number_of (take 4 s), number_of (take 2 (drop 5 s)), number_of (drop 8 s)) of
           (Some y, Some m, Some d) \<Rightarrow>
             if 1 \<le> m \<and> m \<le> 12 \<and> 1 \<le> d
                \<and> int d \<le> MakeDay (int y) (int m) 1 - MakeDay (int y) (int m - 1) 1
             then Some (MakeDay (int y) (int m - 1) (int d) * msPerDay)
             else None
         | _ \<Rightarrow> None)
      else None)"

text \<open>
  The collation of the hosts below: the root collation of CLDR, which Node.js uses for
  English, on the printable ASCII characters. Strings are compared by the primary weights
  of their characters first, in which a letter and its capital are the same and the order
  is: the space, the punctuation marks and symbols (underscore, hyphen, comma and so on,
  as \<open>root_punctuation\<close> lists them), the digits, the letters. Strings with the same
  primary weights are compared by the case of their characters, a small letter before its
  capital. So \<open>a\<close>, \<open>aapl\<close>, \<open>B\<close>, \<open>ZZZ\<close> ascend.
  Characters outside printable ASCII are not modelled; they are put after the letters, by
  code.
\<close>

fun position :: "nat \<Rightarrow> 'a \<Rightarrow> 'a list \<Rightarrow> nat option" where
  \<comment> \<open>The index of the first \<open>x\<close> in a list whose indices start at \<open>i\<close>.\<close>
  "position i x [] = None"
| "position i x (y # ys) = (if x = y then Some i else position (i + 1) x ys)"

definition root_punctuation :: "nat list" where
  \<comment> \<open>The codes of the space and of the 32 marks of ASCII, in the order of the collation.\<close>
  "root_punctuation =
     [32, 95, 45, 44, 59, 58, 33, 63, 46, 39, 34, 40, 41, 91, 93, 123, 125, 64, 42, 47, 92,
      38, 35, 37, 96, 94, 43, 60, 61, 62, 124, 126, 36]"

definition primary_weight :: "char \<Rightarrow> nat" where
  "primary_weight c =
     (let n = of_char c
      in if 48 \<le> n \<and> n \<le> 57 then 33 + (n - 48)
         else if 97 \<le> n \<and> n \<le> 122 then 43 + (n - 97)
         else if 65 \<le> n \<and> n \<le> 90 then 43 + (n - 65)
         else (case position 0 n root_punctuation of Some i \<Rightarrow> i | None \<Rightarrow> 69 + n))"

definition tertiary_weight :: "char \<Rightarrow> nat" where
  "tertiary_weight c = (let n = of_char c in if 65 \<le> n \<and> n \<le> (90::nat) then 1 else 0)"

definition root_collation :: "string \<Rightarrow> string \<Rightarrow> int" where
  "root_collation a b =
     (let pa = map primary_weight a; pb = map primary_weight b;
          ta = map tertiary_weight a; tb = map tertiary_weight b
      in if pa < pb then - 1 else if pb < pa then 1
         else if ta < tb then - 1 else if tb < ta then 1 else 0)"

definition fixed_zone :: "int \<Rightarrow> host" where
  \<comment> \<open>A zone whose offset from UTC never changes, in milliseconds.\<close>
  "fixed_zone off =
     \<lparr>tzaUTC = (\<lambda>t. off), tzaLocal = (\<lambda>t. off), parseDate = iso_date_only,
      localeCompare = root_collation\<rparr>"

definition host_UTC :: host where
  "host_UTC = fixed_zone 0"

definition host_EST :: host where
  \<comment> \<open>America/New_York in winter: five hours behind UTC.\<close>
  "host_EST = fixed_zone (- 18000000)"

definition host_London_2024 :: host where
  \<comment> \<open>Europe/London through 2024: summer time, one hour ahead of UTC, from 2024-03-31T01:00Z
      to 2024-10-27T01:00Z. A local time that the clocks skipped is read with the offset
      before the change.\<close>
  "host_London_2024 =
     \<lparr>tzaUTC = (\<lambda>t. if 1711846800000 \<le> t \<and> t < 1729990800000 then 3600000 else 0),
      tzaLocal = (\<lambda>t. if 1711846800000 + 3600000 \<le> t \<and> t < 1729990800000 + 3600000
                       then 3600000 else 0),
      parseDate = iso_date_only,
      localeCompare = root_collation\<rparr>"

section \<open>What the properties speak of\<close>

subsection \<open>Kinds of cards\<close>

text \<open>
  The cards carry no tag. A day label has an empty title and subtitle and a value that
  starts with a weekday name and \<open>" - "\<close>. A company card has the entry's name as its
  title, which is empty only when the symbol is.
\<close>

definition is_day_label :: "card \<Rightarrow> bool" where
  "is_day_label c =
     (title c = [] \<and> subtitle c = []
      \<and> list_ex (\<lambda>l. take (length l + 3) (cvalue c) = l @ '' - '') dayLabels)"

definition named :: "entry \<Rightarrow> bool" where
  \<comment> \<open>What \<open>earning.name || earning.symbol\<close> gives every entry: a name, unless it has no symbol.\<close>
  "named e = (e_name e \<noteq> [] \<or> e_symbol e = [])"

definition all_named :: "groups \<Rightarrow> bool" where
  "all_named g = (\<forall>(k, es) \<in> set g. \<forall>e \<in> set es. named e)"

subsection \<open>Order\<close>


definition ascending :: "host \<Rightarrow> entry list \<Rightarrow> bool" where
  "ascending h es = sorted_wrt (\<lambda>a b. localeCompare h (e_symbol a) (e_symbol b) \<le> 0) es"

definition capital_or_digit :: "char \<Rightarrow> bool" where
  "capital_or_digit c =
     (let n = of_char c :: nat in (48 \<le> n \<and> n \<le> 57) \<or> (65 \<le> n \<and> n \<le> 90))"

definition capitals_and_digits :: "string \<Rightarrow> bool" where
  \<comment> \<open>A string of the characters \<open>0\<close> to \<open>9\<close> and \<open>A\<close> to \<open>Z\<close>, as a ticker symbol is.\<close>
  "capitals_and_digits s = list_all capital_or_digit s"

subsection \<open>Day groups\<close>

text \<open>
  The dates that the loop emits are the first ten, in the order of the sorted keys, that
  it does not skip as weekends. \<open>day_groups h i bs\<close> is the cards of the day groups \<open>bs\<close>,
  the first of them the \<open>i\<close>-th of the output: for each its day label, the company cards
  of its entries as they stand, and the separator that the loop pushes after it.
\<close>

definition kept_dates :: "host \<Rightarrow> groups \<Rightarrow> groups" where
  \<comment> \<open>The dates that the loop does not skip as weekends.\<close>
  "kept_dates h g =
     filter (\<lambda>(dateStr, earnings). \<not> is_weekend (getDay h (new_Date h dateStr))) g"




subsection \<open>The fetch stage\<close>

definition fetch_stage_fails :: "host \<Rightarrow> world \<Rightarrow> bool" where
  \<comment> \<open>An exception before the records are there, or an answer that is not an array.\<close>
  "fetch_stage_fails h w =
     (case computeFetchWindow h (now w) of
        Inl e \<Rightarrow> True
      | Inr (fromDate, toDate) \<Rightarrow>
          (case fetch w fromDate toDate of Records data \<Rightarrow> False | _ \<Rightarrow> True))"

subsection \<open>Inputs of the worked cases\<close>

definition fresh_state :: server_state where
  \<comment> \<open>\<open>let cachedData = []\<close>, and no file yet.\<close>
  "fresh_state = \<lparr>cachedData = [], dataFile = None\<rparr>"

definition world_at :: "int \<Rightarrow> api_outcome \<Rightarrow> world" where
  \<comment> \<open>The clock reads \<open>t\<close>, the API gives \<open>r\<close> whatever the window, the disk takes the file.\<close>
  "world_at t r = \<lparr>now = t, fetch = (\<lambda>fromDate toDate. r), writeFileSync = Written, now_sample = t\<rparr>"

definition jan15_2024 :: int where
  \<comment> \<open>2024-01-15T00:00:00Z, a Monday.\<close>
  "jan15_2024 = 1705276800000"

definition mar20_2024 :: int where
  \<comment> \<open>2024-03-20T00:00:00Z, midnight in London, eleven days before summer time.\<close>
  "mar20_2024 = 1710892800000"

definition aapl :: earning where
  "aapl = \<lparr>symbol = ''AAPL'', name = None, date = ''2024-01-15 16:00'', epsEstimated = Some (Dec 15 1)\<rparr>"

definition saturday_record :: earning where
  "saturday_record = \<lparr>symbol = ''AAPL'', name = None, date = ''2024-01-13'', epsEstimated = Some (Dec 15 1)\<rparr>"

definition zero_eps_record :: earning where
  "zero_eps_record = \<lparr>symbol = ''XYZ'', name = Some ''Xyz Corp'', date = ''2024-01-15'', epsEstimated = Some (Dec 0 0)\<rparr>"

definition zzz :: earning where
  "zzz = \<lparr>symbol = ''ZZZ'', name = None, date = ''2024-01-15'', epsEstimated = None\<rparr>"

definition aaa :: earning where
  "aaa = \<lparr>symbol = ''AAA'', name = None, date = ''2024-01-15'', epsEstimated = None\<rparr>"

definition with_symbol :: "string \<Rightarrow> earning" where
  "with_symbol s = \<lparr>symbol = s, name = None, date = ''2024-01-15'', epsEstimated = None\<rparr>"

definition on_day :: "string \<Rightarrow> earning" where
  "on_day d = \<lparr>symbol = ''AAPL'', name = None, date = d, epsEstimated = None\<rparr>"

definition twelve_days :: "earning list" where
  \<comment> \<open>One record on each of twelve working days, from Monday 2024-01-15.\<close>
  "twelve_days = map on_day
     [''2024-01-15'', ''2024-01-16'', ''2024-01-17'', ''2024-01-18'', ''2024-01-19'',
      ''2024-01-22'', ''2024-01-23'', ''2024-01-24'', ''2024-01-25'', ''2024-01-26'',
      ''2024-01-29'', ''2024-01-30'']"

definition twelve_groups :: groups where
  "twelve_groups = map (\<lambda>d. (d, [\<lparr>e_symbol = ''AAPL'', e_name = ''AAPL'', eps = None\<rparr>]))
     [''2024-01-15'', ''2024-01-16'', ''2024-01-17'', ''2024-01-18'', ''2024-01-19'',
      ''2024-01-22'', ''2024-01-23'', ''2024-01-24'', ''2024-01-25'', ''2024-01-26'',
      ''2024-01-29'', ''2024-01-30'']"

definition served_state :: server_state where
  \<comment> \<open>The state after a refresh on 2024-01-15 that found no earnings: header and note,
      cached and on disk.\<close>
  "served_state =
     \<lparr>cachedData = [header_card host_UTC jan15_2024, note_card],
      dataFile = Some [header_card host_UTC jan15_2024, note_card]\<rparr>"

section \<open>Evaluation\<close>

text \<open>
  The definitions by which \<open>simp\<close> runs the model on an input. The \<open>let\<close>s are evaluated
  value first (\<open>cong: let_weak_cong\<close>).
\<close>

lemmas date_defs = msPerDay_def Day_def TimeWithinDay_def WeekDay_def TimeClip_def
  DaysInYear_def DayFromYear_def year_down.simps year_up.simps YearFromTime_def InLeapYear_def
  DayWithinYear_def month_starts_def MonthFromTime_def DateFromTime_def
  MakeDay_def MakeDate_def LocalTime_def UTC_def new_Date_def getDay_def getDate_def setDate_def

lemmas string_defs = digits.simps padStart_def int_toString_def split_first_def toISOString_def
  monthNames_def toLocaleDateString_def Number_toString_def truthy_num_def

lemmas app_defs = formatDate_def computeFetchWindow_def name_or_symbol_def is_weekend_def
  header_card_def note_card_def separator_card_def dayLabels_def day_card_def company_card_def
  Array_sort_def transform_def fetchEarningsData_def api_refresh_def api_earnings_def

lemmas host_defs = digit_val_def iso_date_only_def root_punctuation_def primary_weight_def
  tertiary_weight_def root_collation_def fixed_zone_def host_UTC_def host_EST_def
  host_London_2024_def

lemmas input_defs = fresh_state_def world_at_def jan15_2024_def mar20_2024_def aapl_def
  saturday_record_def zero_eps_record_def zzz_def aaa_def with_symbol_def on_day_def twelve_days_def
  twelve_groups_def served_state_def

lemmas run_defs = date_defs string_defs app_defs host_defs input_defs Let_def

section \<open>Lemmas on the stages\<close>

subsection \<open>The sort\<close>

text \<open>
  \<open>Array_sort\<close> rearranges its list, whatever the comparison; with a consistent comparator
  no element of the result comes after a later one.
\<close>

lemma mset_insert_sorted: "mset (insert_sorted cmp x ys) = add_mset x (mset ys)"
  by (induction ys) simp_all

lemma mset_Array_sort: "mset (Array_sort cmp xs) = mset xs"
  by (induction xs) (simp_all add: Array_sort_def mset_insert_sorted)


lemma set_Array_sort: "set (Array_sort cmp xs) = set xs"
  using mset_Array_sort [of cmp xs] by (metis set_mset_mset)





lemma kept_dates_Array_sort:
  "length (kept_dates h (Array_sort cmp g)) = length (kept_dates h g)"
proof -
  have "mset (kept_dates h (Array_sort cmp g)) = mset (kept_dates h g)"
    by (simp add: kept_dates_def mset_Array_sort)
  then show ?thesis
    by (metis size_mset)
qed

lemma transform_sorted:
  "transform h today earningsByDate =
     header_card h today # note_card
     # date_loop h 0 (Array_sort (\<lambda>(a, x) (b, y). localeCompare h a b) earningsByDate)"
  by (simp add: transform_def Let_def)

subsection \<open>The root collation\<close>

text \<open>
  The root collation is a consistent comparator, and on strings of capitals and digits it
  is the order of the character codes.
\<close>

lemma root_collation_le:
  "root_collation a b \<le> 0 \<longleftrightarrow>
     map primary_weight a < map primary_weight b
     \<or> map primary_weight a = map primary_weight b \<and> map tertiary_weight a \<le> map tertiary_weight b"
  by (auto simp: root_collation_def Let_def)



lemma primary_weight_capital_or_digit:
  assumes "capital_or_digit c" and "capital_or_digit d"
  shows "primary_weight c < primary_weight d \<longleftrightarrow> c < d"
    and "primary_weight c = primary_weight d \<longleftrightarrow> c = d"
proof -
  define n m where "n = (of_char c :: nat)" and "m = (of_char d :: nat)"
  have n: "(48 \<le> n \<and> n \<le> 57) \<or> (65 \<le> n \<and> n \<le> 90)"
    and m: "(48 \<le> m \<and> m \<le> 57) \<or> (65 \<le> m \<and> m \<le> 90)"
    using assms by (simp_all add: capital_or_digit_def Let_def n_def m_def)
  have c: "primary_weight c = (if n \<le> 57 then 33 + (n - 48) else 43 + (n - 65))"
    using n by (auto simp: primary_weight_def Let_def n_def [symmetric])
  have d: "primary_weight d = (if m \<le> 57 then 33 + (m - 48) else 43 + (m - 65))"
    using m by (auto simp: primary_weight_def Let_def m_def [symmetric])
  have "primary_weight c < primary_weight d \<longleftrightarrow> n < m"
    unfolding c d using n m by auto
  then show "primary_weight c < primary_weight d \<longleftrightarrow> c < d"
    by (simp add: less_char_def n_def m_def)
  have "primary_weight c = primary_weight d \<longleftrightarrow> n = m"
    unfolding c d using n m by auto
  then show "primary_weight c = primary_weight d \<longleftrightarrow> c = d"
    by (simp add: n_def m_def)
qed

lemma primary_weights_capitals_and_digits:
  "capitals_and_digits a \<Longrightarrow> capitals_and_digits b \<Longrightarrow>
   (map primary_weight a < map primary_weight b \<longleftrightarrow> a < b)
   \<and> (map primary_weight a = map primary_weight b \<longleftrightarrow> a = b)"
proof (induction a arbitrary: b)
  case Nil
  then show ?case by (cases b) simp_all
next
  case (Cons c a)
  show ?case
  proof (cases b)
    case Nil
    then show ?thesis by simp
  next
    case (Cons d b')
    with Cons.prems have c: "capital_or_digit c" and d: "capital_or_digit d"
      and a: "capitals_and_digits a" and b': "capitals_and_digits b'"
      by (simp_all add: capitals_and_digits_def)
    from Cons.IH [OF a b'] primary_weight_capital_or_digit [OF c d]
    show ?thesis
      by (simp add: Cons)
  qed
qed

lemma root_collation_on_capitals_and_digits:
  assumes "capitals_and_digits a" and "capitals_and_digits b"
  shows "root_collation a b \<le> 0 \<longleftrightarrow> a \<le> b"
  using primary_weights_capitals_and_digits [OF assms]
  by (auto simp: root_collation_le)

lemma ascending_capitals_and_digits:
  assumes "localeCompare h = root_collation"
    and "\<forall>e \<in> set es. capitals_and_digits (e_symbol e)"
  shows "ascending h es \<longleftrightarrow> sorted (map e_symbol es)"
proof -
  have "localeCompare h (e_symbol a) (e_symbol b) \<le> 0 \<longleftrightarrow> e_symbol a \<le> e_symbol b"
    if "a \<in> set es" and "b \<in> set es" for a b
    using that assms by (simp add: root_collation_on_capitals_and_digits)
  then have "sorted_wrt (\<lambda>a b. localeCompare h (e_symbol a) (e_symbol b) \<le> 0) es
             \<longleftrightarrow> sorted_wrt (\<lambda>a b. e_symbol a \<le> e_symbol b) es"
    by (auto elim!: sorted_wrt_mono_rel [rotated])
  then show ?thesis
    by (simp add: ascending_def sorted_map)
qed

subsection \<open>Every entry of a grouped dictionary has a name, or no symbol\<close>

lemma named_entry:
  "named \<lparr>e_symbol = symbol x, e_name = name_or_symbol x, eps = epsEstimated x\<rparr>"
  by (simp add: named_def name_or_symbol_def split: option.splits)

lemma push_entry_all_named:
  "all_named g \<Longrightarrow> named e \<Longrightarrow> all_named (push_entry k e g)"
  by (induction g) (fastforce simp: all_named_def split: if_splits)+

lemma group_records_all_named:
  "group_records h data acc = Inr g \<Longrightarrow> all_named acc \<Longrightarrow> all_named g"
proof (induction data arbitrary: acc)
  case Nil
  then show ?case by simp
next
  case (Cons x data)
  show ?case
  proof (cases "is_weekend (getDay h (new_Date h (split_first CHR '' '' (date x))))")
    case True
    with Cons.prems have "group_records h data acc = Inr g"
      by (simp add: Let_def)
    then show ?thesis using Cons.IH Cons.prems(2) by blast
  next
    case False
    with Cons.prems(1) obtain k where
      "group_records h data
         (push_entry k \<lparr>e_symbol = symbol x, e_name = name_or_symbol x, eps = epsEstimated x\<rparr> acc)
       = Inr g"
      by (auto simp: Let_def split: sum.splits)
    moreover have
      "all_named (push_entry k \<lparr>e_symbol = symbol x, e_name = name_or_symbol x, eps = epsEstimated x\<rparr> acc)"
      using Cons.prems(2) named_entry by (rule push_entry_all_named)
    ultimately show ?thesis using Cons.IH by blast
  qed
qed

lemma grouped_all_named: "group_records h data [] = Inr g \<Longrightarrow> all_named g"
  using group_records_all_named [of h data "[]" g] by (simp add: all_named_def)

lemma all_named_Array_sort: "all_named (Array_sort cmp g) = all_named g"
  by (simp add: all_named_def set_Array_sort)

lemma all_named_Cons: "all_named ((k, es) # g) = ((\<forall>e \<in> set es. named e) \<and> all_named g)"
  by (simp add: all_named_def)

subsection \<open>Which cards are day labels, which are company cards\<close>

lemma header_not_day_label: "\<not> is_day_label (header_card h t)"
  by (simp add: is_day_label_def header_card_def dayLabels_def)

lemma note_not_day_label: "\<not> is_day_label note_card"
  by (simp add: is_day_label_def note_card_def dayLabels_def)

lemma separator_not_day_label: "\<not> is_day_label separator_card"
  by (simp add: is_day_label_def separator_card_def dayLabels_def)

lemma company_not_day_label: "named e \<Longrightarrow> \<not> is_day_label (company_card e)"
  by (auto simp: is_day_label_def company_card_def named_def dayLabels_def)

subsection \<open>The loop over the dates\<close>

lemma date_loop_Cons:
  "date_loop h n ((k, es) # rest) =
     (if 10 \<le> n then []
      else if is_weekend (getDay h (new_Date h k)) then date_loop h n rest
      else day_card h n (new_Date h k)
           # map company_card (Array_sort (\<lambda>a b. localeCompare h (e_symbol a) (e_symbol b)) es)
           @ (if n < 9 then [separator_card] else []) @ date_loop h (Suc n) rest)"
  by (simp add: Let_def)

lemma filter_company_cards:
  "\<forall>e \<in> set es. named e \<Longrightarrow>
   filter is_day_label (map company_card (Array_sort cmp es)) = []"
  by (simp add: filter_empty_conv company_not_day_label set_Array_sort)

lemma date_loop_day_labels:
  "all_named g \<Longrightarrow> length (filter is_day_label (date_loop h n g)) \<le> 10 - n"
proof (induction g arbitrary: n)
  case Nil
  then show ?case by simp
next
  case (Cons a g)
  obtain k es where a: "a = (k, es)" by (cases a)
  from Cons.prems a have es: "\<forall>e \<in> set es. named e" and g: "all_named g"
    by (simp_all add: all_named_Cons)
  have step: "length (filter is_day_label (date_loop h (Suc n) g)) \<le> 10 - Suc n"
    and skip: "length (filter is_day_label (date_loop h n g)) \<le> 10 - n"
    using Cons.IH g by blast+
  show ?case
    using step skip
    by (auto simp add: a date_loop_Cons filter_company_cards [OF es] separator_not_day_label
        simp del: date_loop.simps)
qed


subsection \<open>What \<open>fetchEarningsData\<close> returns\<close>

lemma getSampleData_starts:
  "\<exists>rest. getSampleData h t = header_card h t # note_card # rest"
  by (simp add: getSampleData_def)

lemma length_getSampleData: "length (getSampleData h t) = 49"
  by (simp add: getSampleData_def)

lemma fetch_returns:
  "fst (fetchEarningsData h w st) = getSampleData h (now_sample w)
   \<or> (\<exists>g. fst (fetchEarningsData h w st) = transform h (now w) g)"
  by (auto simp: fetchEarningsData_def Let_def
      split: sum.splits prod.splits api_outcome.splits write_outcome.splits)

lemma fetch_starts:
  "\<exists>t rest. fst (fetchEarningsData h w st) = header_card h t # note_card # rest"
  using fetch_returns [of h w st] getSampleData_starts [of h "now_sample w"]
  by (auto simp: transform_sorted)

lemma fetch_stage_fails_returns:
  "fetch_stage_fails h w \<Longrightarrow> fetchEarningsData h w st = (getSampleData h (now_sample w), st)"
  by (auto simp: fetch_stage_fails_def fetchEarningsData_def
      split: sum.splits prod.splits api_outcome.splits)

subsection \<open>The dictionary\<close>

text \<open>\<open>push_entry\<close> is the update of a dictionary with distinct keys.\<close>

lemma map_fst_push_entry:
  "map fst (push_entry k e g) = (if k \<in> fst ` set g then map fst g else map fst g @ [k])"
  by (induction g) (auto split: if_splits)

lemma keys_push_entry: "fst ` set (push_entry k e g) = insert k (fst ` set g)"
proof -
  have "fst ` set (push_entry k e g) = set (map fst (push_entry k e g))"
    by simp
  also have "\<dots> = insert k (fst ` set g)"
    unfolding map_fst_push_entry by auto
  finally show ?thesis .
qed

lemma distinct_push_entry: "distinct (map fst g) \<Longrightarrow> distinct (map fst (push_entry k e g))"
proof (induction g)
  case Nil
  then show ?case by simp
next
  case (Cons a g)
  obtain k' es where a: "a = (k', es)" by (cases a)
  have "k' \<notin> fst ` set (push_entry k e g)" if "k' \<noteq> k"
    using that Cons.prems by (simp add: a keys_push_entry)
  then show ?case
    using Cons by (auto simp: a)
qed

lemma map_of_push_entry:
  "map_of (push_entry k e g) =
     (map_of g)(k \<mapsto> (case map_of g k of None \<Rightarrow> [e] | Some es \<Rightarrow> es @ [e]))"
  by (induction g) (auto simp: fun_eq_iff)

lemma group_records_distinct:
  "group_records h data acc = Inr g \<Longrightarrow> distinct (map fst acc) \<Longrightarrow> distinct (map fst g)"
proof (induction data arbitrary: acc)
  case Nil
  then show ?case by simp
next
  case (Cons x data)
  then show ?case
    by (auto simp: Let_def distinct_push_entry split: if_splits sum.splits)
qed

subsection \<open>The keys when the host is in UTC\<close>

text \<open>
  Where local time is UTC, the day of the week and the key are read off the same calendar
  day: every key is the date of a time value that falls on a working day.
\<close>

lemma group_records_keys_UTC:
  assumes utc: "\<And>t. tzaUTC h t = 0"
  shows "group_records h data acc = Inr g \<Longrightarrow>
         \<forall>k \<in> fst ` set acc. \<exists>t. k = split_first CHR ''T'' (toISOString t)
                                    \<and> WeekDay t \<noteq> 0 \<and> WeekDay t \<noteq> 6 \<Longrightarrow>
         \<forall>k \<in> fst ` set g. \<exists>t. k = split_first CHR ''T'' (toISOString t)
                                  \<and> WeekDay t \<noteq> 0 \<and> WeekDay t \<noteq> 6"
proof (induction data arbitrary: acc)
  case Nil
  then show ?case by simp
next
  case (Cons x data)
  let ?d = "new_Date h (split_first CHR '' '' (date x))"
  show ?case
  proof (cases "is_weekend (getDay h ?d)")
    case True
    with Cons.prems(1) have "group_records h data acc = Inr g"
      by (simp add: Let_def)
    then show ?thesis using Cons.IH Cons.prems(2) by blast
  next
    case False
    with Cons.prems(1) obtain key where
      key: "formatDate ?d = Inr key"
      and rest: "group_records h data
         (push_entry key \<lparr>e_symbol = symbol x, e_name = name_or_symbol x, eps = epsEstimated x\<rparr> acc)
       = Inr g"
      by (auto simp: Let_def split: sum.splits)
    from key obtain t where t: "?d = Some t" "key = split_first CHR ''T'' (toISOString t)"
      by (auto simp: formatDate_def split: option.splits)
    from False t(1) have "WeekDay t \<noteq> 0 \<and> WeekDay t \<noteq> 6"
      by (simp add: is_weekend_def getDay_def LocalTime_def utc)
    with t(2) Cons.prems(2) have
      "\<forall>k \<in> fst ` set (push_entry key
           \<lparr>e_symbol = symbol x, e_name = name_or_symbol x, eps = epsEstimated x\<rparr> acc).
         \<exists>t. k = split_first CHR ''T'' (toISOString t) \<and> WeekDay t \<noteq> 0 \<and> WeekDay t \<noteq> 6"
      unfolding keys_push_entry by blast
    with rest show ?thesis using Cons.IH by blast
  qed
qed

lemma weekday_keys_in_UTC:
  assumes "\<And>t. tzaUTC h t = 0" and "group_records h data [] = Inr g" and "(k, es) \<in> set g"
  shows "\<exists>t. k = split_first CHR ''T'' (toISOString t) \<and> WeekDay t \<noteq> 0 \<and> WeekDay t \<noteq> 6"
proof -
  have "\<forall>k \<in> fst ` set g. \<exists>t. k = split_first CHR ''T'' (toISOString t)
                               \<and> WeekDay t \<noteq> 0 \<and> WeekDay t \<noteq> 6"
    using assms(1) assms(2) by (rule group_records_keys_UTC) simp
  moreover have "k \<in> fst ` set g"
    using assms(3) by force
  ultimately show ?thesis by blast
qed

subsection \<open>Single cards and single groups\<close>

lemma company_card_subtitle:
  "subtitle (company_card e) =
     (case eps e of
        None \<Rightarrow> ''''
      | Some (Dec m sc) \<Rightarrow> if m = 0 then '''' else ''Est. EPS: $'' @ Number_toString (Dec m sc))"
  by (simp add: company_card_def truthy_num_def split: option.splits jsnum.splits)

lemma single_group_ends_in_separator:
  "\<not> is_weekend (getDay h (new_Date h k)) \<Longrightarrow>
   last (transform h today [(k, es)]) = separator_card"
  by (simp add: transform_sorted Array_sort_def)

subsection \<open>Twelve working days of records\<close>

lemma group_twelve: "group_records host_UTC twelve_days [] = Inr twelve_groups"
  by (simp add: run_defs cong: let_weak_cong)

lemma transform_twelve:
  "transform host_UTC jan15_2024 twelve_groups =
     [header_card host_UTC jan15_2024, note_card,
      \<lparr>cvalue = ''Monday - 15'', title = '''', subtitle = ''''\<rparr>,
      \<lparr>cvalue = ''AAPL'', title = ''AAPL'', subtitle = ''''\<rparr>,
      separator_card,
      \<lparr>cvalue = ''Tuesday - 16'', title = '''', subtitle = ''''\<rparr>,
      \<lparr>cvalue = ''AAPL'', title = ''AAPL'', subtitle = ''''\<rparr>,
      separator_card,
      \<lparr>cvalue = ''Wednesday - 17'', title = '''', subtitle = ''''\<rparr>,
      \<lparr>cvalue = ''AAPL'', title = ''AAPL'', subtitle = ''''\<rparr>,
      separator_card,
      \<lparr>cvalue = ''Thursday - 18'', title = '''', subtitle = ''''\<rparr>,
      \<lparr>cvalue = ''AAPL'', title = ''AAPL'', subtitle = ''''\<rparr>,
      separator_card,
      \<lparr>cvalue = ''Friday - 19'', title = '''', subtitle = ''''\<rparr>,
      \<lparr>cvalue = ''AAPL'', title = ''AAPL'', subtitle = ''''\<rparr>,
      separator_card,
      \<lparr>cvalue = ''Monday - 22'', title = '''', subtitle = ''''\<rparr>,
      \<lparr>cvalue = ''AAPL'', title = ''AAPL'', subtitle = ''''\<rparr>,
      separator_card,
      \<lparr>cvalue = ''Tuesday - 23'', title = '''', subtitle = ''''\<rparr>,
      \<lparr>cvalue = ''AAPL'', title = ''AAPL'', subtitle = ''''\<rparr>,
      separator_card,
      \<lparr>cvalue = ''Wednesday - 24'', title = '''', subtitle = ''''\<rparr>,
      \<lparr>cvalue = ''AAPL'', title = ''AAPL'', subtitle = ''''\<rparr>,
      separator_card,
      \<lparr>cvalue = ''Thursday - 25'', title = '''', subtitle = ''''\<rparr>,
      \<lparr>cvalue = ''AAPL'', title = ''AAPL'', subtitle = ''''\<rparr>,
      separator_card,
      \<lparr>cvalue = ''Friday - 26'', title = '''', subtitle = ''''\<rparr>,
      \<lparr>cvalue = ''AAPL'', title = ''AAPL'', subtitle = ''''\<rparr>]"
  by (simp add: run_defs cong: let_weak_cong)

lemma ten_days_end_without_separator:
  "last (transform host_UTC jan15_2024 twelve_groups)
     = \<lparr>cvalue = ''AAPL'', title = ''AAPL'', subtitle = ''''\<rparr>"
  by (simp add: transform_twelve)

subsection \<open>Symbols in small letters and capitals\<close>

text \<open>
  In the root collation small letters do not come after the capitals, as they do by
  character code: the symbols ZZZ, B, aapl and a of one date come out as a, aapl, B, ZZZ.
\<close>

lemma small_letters_among_capitals:
  "fst (fetchEarningsData host_UTC
          (world_at jan15_2024
             (Records [with_symbol ''ZZZ'', with_symbol ''B'', with_symbol ''aapl'', with_symbol ''a'']))
          fresh_state) =
     [header_card host_UTC jan15_2024, note_card,
      \<lparr>cvalue = ''Monday - 15'', title = '''', subtitle = ''''\<rparr>,
      \<lparr>cvalue = ''a'', title = ''a'', subtitle = ''''\<rparr>,
      \<lparr>cvalue = ''aapl'', title = ''aapl'', subtitle = ''''\<rparr>,
      \<lparr>cvalue = ''B'', title = ''B'', subtitle = ''''\<rparr>,
      \<lparr>cvalue = ''ZZZ'', title = ''ZZZ'', subtitle = ''''\<rparr>,
      separator_card]"
  by (simp add: run_defs cong: let_weak_cong)

subsection \<open>The same inputs on other hosts\<close>

lemma fourteen_day_window_in_UTC:
  "computeFetchWindow host_UTC mar20_2024 = Inr (''2024-03-20'', ''2024-04-03'')"
  by (simp add: run_defs cong: let_weak_cong)

lemma monday_dropped_west_of_UTC:
  "group_records host_EST [aapl] [] = Inr []"
  by (simp add: run_defs cong: let_weak_cong)

subsection \<open>The calendar\<close>

text \<open>
  \<open>YearFromTime\<close> is the year ECMA-262 asks for, the year has as many days as
  \<open>DaysInYear\<close> says, and the day of the month lies between 1 and 31.
\<close>

lemma year_down_started: "DayFromYear (year_down d y) \<le> d"
proof (induction d y rule: year_down.induct)
  case (1 d y)
  show ?case
    by (subst year_down.simps) (use 1 in auto)
qed

lemma year_up_last:
  "DayFromYear y \<le> d \<Longrightarrow> DayFromYear (year_up d y) \<le> d \<and> d < DayFromYear (year_up d y + 1)"
proof (induction d y rule: year_up.induct)
  case (1 d y)
  show ?case
    by (subst (1 2) year_up.simps) (use 1 in auto)
qed

lemma YearFromTime_bounds:
  "DayFromYear (YearFromTime t) \<le> Day t \<and> Day t < DayFromYear (YearFromTime t + 1)"
  unfolding YearFromTime_def by (rule year_up_last) (rule year_down_started)

lemma MonthFromTime_range: "0 \<le> MonthFromTime t \<and> MonthFromTime t \<le> 11"
proof -
  have "length (filter (\<lambda>s. s \<le> DayWithinYear t) (tl (month_starts (InLeapYear t))))
          \<le> length (tl (month_starts (InLeapYear t)))"
    by (rule length_filter_le)
  then show ?thesis
    by (simp add: MonthFromTime_def month_starts_def)
qed

lemma div_next:
  fixes x k :: int
  assumes "0 < k"
  shows "(x + 1) div k = x div k + (if k dvd x + 1 then 1 else 0)"
proof -
  define q r where "q = x div k" and "r = x mod k"
  have x: "x = k * q + r"
    by (simp add: q_def r_def)
  have r: "0 \<le> r" "r < k"
    using assms by (simp_all add: r_def)
  show ?thesis
  proof (cases "r + 1 = k")
    case True
    have "x + 1 = k * (q + 1) + 0"
      unfolding x using True by (simp add: distrib_left)
    with assms have "(x + 1) div k = q + 1" and "(x + 1) mod k = 0"
      by (auto intro: int_div_pos_eq int_mod_pos_eq)
    then show ?thesis
      by (simp add: q_def dvd_eq_mod_eq_0)
  next
    case False
    with r have r1: "0 \<le> r + 1" "r + 1 < k"
      by simp_all
    have "x + 1 = k * q + (r + 1)"
      unfolding x by simp
    with r1 have "(x + 1) div k = q" and "(x + 1) mod k = r + 1"
      by (auto intro: int_div_pos_eq int_mod_pos_eq)
    moreover have "r + 1 \<noteq> 0"
      using r by simp
    ultimately show ?thesis
      by (simp add: q_def dvd_eq_mod_eq_0)
  qed
qed

lemma div_next_year:
  fixes y c k :: int
  assumes "0 < k" and "k dvd c - 1"
  shows "(y + 1 - c) div k = (y - c) div k + (if k dvd y then 1 else 0)"
proof -
  have eq1: "y + 1 - c = (y - c) + 1"
    by simp
  have eq2: "(y - c) + 1 = y - (c - 1)"
    by simp
  have d: "k dvd (y - c) + 1 \<longleftrightarrow> k dvd y"
    unfolding eq2 by (rule dvd_diff_left_iff [OF assms(2)])
  show ?thesis
    unfolding eq1 div_next [OF assms(1), of "y - c"] d by (rule refl)
qed

lemma DayFromYear_Suc: "DayFromYear (y + 1) = DayFromYear y + DaysInYear y"
proof -
  have a: "(y + 1 - 1969) div 4 = (y - 1969) div 4 + (if 4 dvd y then 1 else 0)"
    by (rule div_next_year) simp_all
  have b: "(y + 1 - 1901) div 100 = (y - 1901) div 100 + (if 100 dvd y then 1 else 0)"
    by (rule div_next_year) simp_all
  have c: "(y + 1 - 1601) div 400 = (y - 1601) div 400 + (if 400 dvd y then 1 else 0)"
    by (rule div_next_year) simp_all
  have d: "4 dvd y" if "100 dvd y"
    using that by (rule dvd_trans [rotated]) simp
  have e: "100 dvd y" if "400 dvd y"
    using that by (rule dvd_trans [rotated]) simp
  have "365 * (y + 1 - 1970) + (p + i) - (q + j) + (r + k)
          = 365 * (y - 1970) + p - q + r + (365 + i - j + k)" for p q r i j k :: int
    by simp
  then have "DayFromYear (y + 1) = DayFromYear y
      + (365 + (if 4 dvd y then 1 else 0) - (if 100 dvd y then 1 else 0)
         + (if 400 dvd y then 1 else 0))"
    unfolding DayFromYear_def a b c .
  also have "365 + (if 4 dvd y then 1 else 0) - (if 100 dvd y then 1 else 0)
         + (if 400 dvd y then 1 else 0) = DaysInYear y"
    using d e by (auto simp: DaysInYear_def mod_eq_0_iff_dvd)
  finally show ?thesis .
qed

lemma DayWithinYear_range: "0 \<le> DayWithinYear t \<and> DayWithinYear t < DaysInYear (YearFromTime t)"
  using YearFromTime_bounds [of t] by (simp add: DayWithinYear_def DayFromYear_Suc)

lemma month_and_date_range:
  assumes "0 \<le> d" and "d < 365 + l" and "l = 0 \<or> l = 1"
  shows "1 \<le> d - month_starts l ! length (filter (\<lambda>s. s \<le> d) (tl (month_starts l))) + 1
         \<and> d - month_starts l ! length (filter (\<lambda>s. s \<le> d) (tl (month_starts l))) + 1 \<le> 31"
  using assms by (auto simp: month_starts_def)

lemma DateFromTime_range: "1 \<le> DateFromTime t \<and> DateFromTime t \<le> 31"
proof -
  have "DayWithinYear t < 365 + InLeapYear t" "InLeapYear t = 0 \<or> InLeapYear t = 1"
    using DayWithinYear_range [of t]
    by (auto simp: InLeapYear_def DaysInYear_def split: if_splits)
  with DayWithinYear_range [of t] show ?thesis
    unfolding DateFromTime_def MonthFromTime_def nat_int
    by (intro month_and_date_range) simp_all
qed

text \<open>
  \<open>setDate\<close> with the day of the month of the date itself plus \<open>n\<close> moves the date by
  \<open>n\<close> days of the local calendar. Where the offset from UTC never changes these are \<open>n\<close>
  days of 24 hours, and the fetch window runs from the UTC date of \<open>t\<close> to the UTC date 14
  days later.
\<close>

lemma MakeDay_same_month:
  "MakeDay (YearFromTime t) (MonthFromTime t) dt = Day t - DateFromTime t + dt"
proof -
  have "MonthFromTime t div 12 = 0" "MonthFromTime t mod 12 = MonthFromTime t"
    using MonthFromTime_range [of t] by simp_all
  then show ?thesis
    by (simp add: MakeDay_def DateFromTime_def DayWithinYear_def InLeapYear_def Let_def)
qed

lemma setDate_fixed_zone:
  assumes "\<And>u. tzaUTC h u = off" and "\<And>u. tzaLocal h u = off"
  shows "setDate h (Some t) (map_option (\<lambda>d. d + n) (getDate h (Some t))) = TimeClip (t + n * msPerDay)"
proof -
  let ?l = "t + off"
  have "MakeDate (MakeDay (YearFromTime ?l) (MonthFromTime ?l) (DateFromTime ?l + n)) (TimeWithinDay ?l)
          = (Day ?l + n) * msPerDay + TimeWithinDay ?l"
    by (simp add: MakeDay_same_month MakeDate_def)
  also have "\<dots> = ?l + n * msPerDay"
    by (simp add: Day_def TimeWithinDay_def algebra_simps)
  finally show ?thesis
    by (simp add: setDate_def getDate_def LocalTime_def UTC_def assms Let_def)
qed

lemma Day_add_days: "Day (t + n * msPerDay) = Day t + n"
  by (simp add: Day_def msPerDay_def)

lemma window_in_fixed_zone:
  assumes "\<And>u. tzaUTC h u = off" and "\<And>u. tzaLocal h u = off"
    and "\<bar>t + 14 * msPerDay\<bar> \<le> 8640000000000000"
  shows "computeFetchWindow h t =
           Inr (split_first CHR ''T'' (toISOString t),
                split_first CHR ''T'' (toISOString (t + 14 * msPerDay)))"
  using assms(3) setDate_fixed_zone [OF assms(1,2), of t 14]
  by (simp add: computeFetchWindow_def formatDate_def TimeClip_def Let_def)

subsection \<open>Outputs that end in a separator\<close>

text \<open>
  With at least one date that is not skipped and at most nine of them, the last card is a
  separator: the test \<open>businessDaysCounter < 9\<close> holds for every group emitted.
\<close>

lemma date_loop_no_kept: "kept_dates h g = [] \<Longrightarrow> date_loop h n g = []"
proof (induction g arbitrary: n)
  case Nil
  then show ?case by simp
next
  case (Cons a g)
  obtain k es where a: "a = (k, es)" by (cases a)
  from Cons.prems have "is_weekend (getDay h (new_Date h k))" and "kept_dates h g = []"
    by (auto simp: a kept_dates_def split: if_splits)
  then show ?case
    using Cons.IH [of n] by (simp add: a date_loop_Cons del: date_loop.simps)
qed

lemma date_loop_ends_in_separator:
  "kept_dates h g \<noteq> [] \<Longrightarrow> n + length (kept_dates h g) \<le> 9 \<Longrightarrow>
   date_loop h n g \<noteq> [] \<and> last (date_loop h n g) = separator_card"
proof (induction g arbitrary: n)
  case Nil
  then show ?case by (simp add: kept_dates_def)
next
  case (Cons a g)
  obtain k es where a: "a = (k, es)" by (cases a)
  show ?case
  proof (cases "is_weekend (getDay h (new_Date h k))")
    case True
    then have "kept_dates h (a # g) = kept_dates h g"
      by (simp add: a kept_dates_def)
    with Cons True show ?thesis
      by (simp add: a date_loop_Cons del: date_loop.simps)
  next
    case False
    then have kept: "kept_dates h (a # g) = a # kept_dates h g"
      by (simp add: a kept_dates_def)
    with Cons.prems(2) have n: "n < 9" and rest: "Suc n + length (kept_dates h g) \<le> 9"
      by simp_all
    show ?thesis
    proof (cases "kept_dates h g = []")
      case True
      then have "date_loop h (Suc n) g = []"
        by (rule date_loop_no_kept)
      with False n show ?thesis
        by (simp add: a date_loop_Cons del: date_loop.simps)
    next
      case more: False
      then have "date_loop h (Suc n) g \<noteq> [] \<and> last (date_loop h (Suc n) g) = separator_card"
        using rest by (rule Cons.IH)
      with False n show ?thesis
        by (simp add: a date_loop_Cons del: date_loop.simps)
    qed
  qed
qed

lemma fewer_than_ten_days_end_in_separator:
  assumes "kept_dates h g \<noteq> []" and "length (kept_dates h g) \<le> 9"
  shows "last (transform h today g) = separator_card"
proof -
  let ?sorted = "Array_sort (\<lambda>(a, x) (b, y). localeCompare h a b) g"
  have "length (kept_dates h ?sorted) = length (kept_dates h g)"
    by (rule kept_dates_Array_sort)
  with assms have "kept_dates h ?sorted \<noteq> []" and "0 + length (kept_dates h ?sorted) \<le> 9"
    by auto
  then have "date_loop h 0 ?sorted \<noteq> [] \<and> last (date_loop h 0 ?sorted) = separator_card"
    by (rule date_loop_ends_in_separator)
  then show ?thesis
    by (simp add: transform_sorted)
qed

subsection \<open>The paths through \<open>fetchEarningsData\<close>\<close>

text \<open>
  Records that all fall on a weekend leave the dictionary as it was. A call that gets its
  records, groups them and writes the file returns the transformed cards and caches them;
  no other call changes \<open>cachedData\<close>.
\<close>

lemma all_weekend_records_dropped:
  "\<forall>x \<in> set data. is_weekend (getDay h (new_Date h (split_first CHR '' '' (date x)))) \<Longrightarrow>
   group_records h data acc = Inr acc"
  by (induction data) (simp_all add: Let_def)

lemma fetch_success:
  assumes "computeFetchWindow h (now w) = Inr (fromDate, toDate)"
    and "fetch w fromDate toDate = Records data"
    and "group_records h data [] = Inr g"
    and "writeFileSync w = Written"
  shows "fetchEarningsData h w st =
           (transform h (now w) g,
            \<lparr>cachedData = transform h (now w) g, dataFile = Some (transform h (now w) g)\<rparr>)"
  using assms by (simp add: fetchEarningsData_def Let_def)

lemma cache_written_only_on_success:
  "snd (fetchEarningsData h w st) = st
   \<or> (\<exists>f. writeFileSync w = WriteThrows f \<and> snd (fetchEarningsData h w st) = st\<lparr>dataFile := f\<rparr>)
   \<or> (\<exists>g. fetchEarningsData h w st =
              (transform h (now w) g,
               \<lparr>cachedData = transform h (now w) g, dataFile = Some (transform h (now w) g)\<rparr>))"
  by (auto simp: fetchEarningsData_def Let_def
      split: sum.splits prod.splits api_outcome.splits write_outcome.splits)

section \<open>The claims\<close>

text \<open>
  C1. For every grouped input, the output of the transform has no separator card
  (\<open>---\<close>) right after its last day group, whether ten groups were emitted or the dates
  ran out earlier.

  The loop pushes the separator whenever \<open>businessDaysCounter < 9\<close>, which does not look at
  the dates still to come. With one record, AAPL on Monday 2024-01-15, the output ends in a
  separator.
\<close>

theorem separator_after_the_only_day:
  "fst (fetchEarningsData host_UTC (world_at jan15_2024 (Records [aapl])) fresh_state) =
     [header_card host_UTC jan15_2024, note_card,
      \<lparr>cvalue = ''Monday - 15'', title = '''', subtitle = ''''\<rparr>,
      \<lparr>cvalue = ''AAPL'', title = ''AAPL'', subtitle = ''Est. EPS: $1.5''\<rparr>,
      separator_card]"
  by (simp add: run_defs cong: let_weak_cong)

text \<open>
  C2. When the fetch stage fails (the response is not an array, or an error is thrown),
  \<open>fetchEarningsData\<close> returns the fallback sequence without crashing, the cached sequence
  that is served equals the fallback sequence, and the cache file is not overwritten.

  The first and the last part hold; the cached sequence is not touched either, so it stays
  what it was. After a refresh that cached header and note only, a refresh whose answer is
  not an array returns the sample data and still serves header and note.
\<close>

theorem failed_fetch_leaves_cache_behind:
  "snd (fetchEarningsData host_UTC (world_at jan15_2024 (Records [])) fresh_state) = served_state
   \<and> fetch_stage_fails host_UTC (world_at jan15_2024 NotArray)
   \<and> fst (fetchEarningsData host_UTC (world_at jan15_2024 NotArray) served_state)
       = getSampleData host_UTC jan15_2024
   \<and> api_earnings (snd (fetchEarningsData host_UTC (world_at jan15_2024 NotArray) served_state))
       \<noteq> getSampleData host_UTC jan15_2024"
  by (simp add: run_defs fetch_stage_fails_def getSampleData_def cong: let_weak_cong)

text \<open>
  C2, as the code has it. When the fetch stage fails, \<open>fetchEarningsData\<close> returns the
  fallback sequence and leaves the state as it was: the cached sequence and the cache file
  are both unchanged.
\<close>

theorem failed_fetch_returns_sample_and_keeps_state:
  assumes "fetch_stage_fails h w"
  shows "fst (fetchEarningsData h w st) = getSampleData h (now_sample w)
         \<and> cachedData (snd (fetchEarningsData h w st)) = cachedData st
         \<and> dataFile (snd (fetchEarningsData h w st)) = dataFile st"
  using assms
  by (auto simp: fetch_stage_fails_def fetchEarningsData_def
      split: sum.splits prod.splits api_outcome.splits)

theorem failed_fetch_witness:
  "fetch_stage_fails host_UTC (world_at jan15_2024 FetchThrows)
   \<and> fst (fetchEarningsData host_UTC (world_at jan15_2024 FetchThrows) served_state)
       = getSampleData host_UTC jan15_2024
   \<and> cachedData (snd (fetchEarningsData host_UTC (world_at jan15_2024 FetchThrows) served_state))
       = [header_card host_UTC jan15_2024, note_card]
   \<and> dataFile (snd (fetchEarningsData host_UTC (world_at jan15_2024 FetchThrows) served_state))
       = Some [header_card host_UTC jan15_2024, note_card]"
proof -
  have fails: "fetch_stage_fails host_UTC (world_at jan15_2024 FetchThrows)"
    by (simp add: run_defs fetch_stage_fails_def cong: let_weak_cong)
  show ?thesis
    using fails failed_fetch_returns_sample_and_keeps_state [OF fails, of served_state]
    by (simp add: world_at_def served_state_def)
qed

text \<open>
  C3. For every sequence of raw records, the grouping stage gives a dictionary with no key
  whose calendar date is a Saturday or a Sunday; weekend records are dropped.

  The day of the week is taken in local time (\<open>getDay\<close>) and the key in UTC
  (\<open>toISOString\<close>). Five hours west of UTC, a record of Saturday 2024-01-13, which
  \<open>new Date\<close> reads as midnight UTC, falls on Friday evening and is kept under its
  Saturday key.
\<close>

theorem saturday_key_west_of_UTC:
  "group_records host_EST [saturday_record] []
     = Inr [(''2024-01-13'', [\<lparr>e_symbol = ''AAPL'', e_name = ''AAPL'', eps = Some (Dec 15 1)\<rparr>])]
   \<and> iso_date_only ''2024-01-13'' = Some 1705104000000
   \<and> WeekDay 1705104000000 = 6
   \<and> getDay host_EST (Some 1705104000000) = Some 5"
  by (simp add: run_defs cong: let_weak_cong)

text \<open>
  C4. The company card of an entry has the subtitle \<open>Est. EPS: $<value>\<close> exactly when the
  entry has an EPS estimate, an estimate of 0 included, and the empty string exactly when
  it has none.

  The subtitle is chosen by the truth value of the estimate, and 0 is falsy: a record with
  an estimate of 0 gets the empty subtitle.
\<close>

theorem zero_estimate_shows_no_subtitle:
  "fst (fetchEarningsData host_UTC (world_at jan15_2024 (Records [zero_eps_record])) fresh_state) =
     [header_card host_UTC jan15_2024, note_card,
      \<lparr>cvalue = ''Monday - 15'', title = '''', subtitle = ''''\<rparr>,
      \<lparr>cvalue = ''XYZ'', title = ''Xyz Corp'', subtitle = ''''\<rparr>,
      separator_card]"
  by (simp add: run_defs cong: let_weak_cong)

text \<open>
  C5. For every grouped input, however many dates it has, the output of the transform has
  at most 10 day-label cards.
\<close>

theorem at_most_ten_day_labels:
  assumes "group_records h data [] = Inr g"
  shows "length (filter is_day_label (transform h today g)) \<le> 10"
proof -
  let ?sorted = "Array_sort (\<lambda>(a, x) (b, y). localeCompare h a b) g"
  have "all_named ?sorted"
    using assms by (simp add: all_named_Array_sort grouped_all_named)
  then have "length (filter is_day_label (date_loop h 0 ?sorted)) \<le> 10 - 0"
    by (rule date_loop_day_labels)
  then show ?thesis
    by (simp add: transform_sorted header_not_day_label note_not_day_label)
qed

theorem at_most_ten_day_labels_witness:
  "group_records host_UTC twelve_days [] = Inr twelve_groups
   \<and> length (filter is_day_label (transform host_UTC jan15_2024 twelve_groups)) \<le> 10
   \<and> map cvalue (filter is_day_label (transform host_UTC jan15_2024 twelve_groups))
       = [''Monday - 15'', ''Tuesday - 16'', ''Wednesday - 17'', ''Thursday - 18'', ''Friday - 19'',
          ''Monday - 22'', ''Tuesday - 23'', ''Wednesday - 24'', ''Thursday - 25'', ''Friday - 26'']"
proof -
  have labels: "map cvalue (filter is_day_label (transform host_UTC jan15_2024 twelve_groups))
       = [''Monday - 15'', ''Tuesday - 16'', ''Wednesday - 17'', ''Thursday - 18'', ''Friday - 19'',
          ''Monday - 22'', ''Tuesday - 23'', ''Wednesday - 24'', ''Thursday - 25'', ''Friday - 26'']"
    unfolding transform_twelve
    by (simp add: is_day_label_def dayLabels_def header_card_def note_card_def separator_card_def)
  show ?thesis
    using group_twelve labels at_most_ten_day_labels [OF group_twelve, of jan15_2024] by blast
qed

text \<open>
  C6. For every instant \<open>t\<close>, the fetch window has \<open>toDate - fromDate\<close> equal to 14 calendar
  days, and \<open>fromDate\<close> is the calendar date of \<open>t\<close>, both written \<open>YYYY-MM-DD\<close>.

  The end of the window is 14 days later on the local calendar (\<open>setDate\<close>) and is written
  in UTC. In London at midnight of 2024-03-20, 14 local days later is 2024-04-03 00:00 in
  summer time, which is 2024-04-02 23:00 UTC: the window has 13 days.
\<close>

theorem thirteen_day_window_in_London:
  "computeFetchWindow host_London_2024 mar20_2024 = Inr (''2024-03-20'', ''2024-04-02'')
   \<and> iso_date_only ''2024-03-20'' = Some mar20_2024
   \<and> iso_date_only ''2024-04-02'' = Some (mar20_2024 + 13 * msPerDay)"
  by (simp add: run_defs cong: let_weak_cong)



text \<open>
  C8. When the grouped dictionary is empty, as when every record was dated on a weekend
  and dropped, the output of the transform is the header card and the note card and
  nothing else: no day label, no company card, no separator.
\<close>

theorem empty_groups_give_header_and_note:
  "transform h today [] = [header_card h today, note_card]
   \<and> group_records host_UTC [saturday_record] [] = Inr []
   \<and> fst (fetchEarningsData host_UTC (world_at jan15_2024 (Records [saturday_record])) fresh_state)
       = [header_card host_UTC jan15_2024, note_card]"
proof -
  have "transform h today [] = [header_card h today, note_card]"
    by (simp add: transform_sorted Array_sort_def)
  moreover have "group_records host_UTC [saturday_record] [] = Inr []"
    by (simp add: run_defs cong: let_weak_cong)
  moreover have
    "fst (fetchEarningsData host_UTC (world_at jan15_2024 (Records [saturday_record])) fresh_state)
       = [header_card host_UTC jan15_2024, note_card]"
    by (simp add: run_defs cong: let_weak_cong)
  ultimately show ?thesis by blast
qed

text \<open>
  C9. The handler of \<open>GET /api/refresh\<close> always answers \<open>success: true\<close> with the message
  \<open>Data refreshed successfully\<close>, also when the fetch failed and the data returned is the
  fallback sequence (49 cards); no error is ever reported to the client.
\<close>

theorem refresh_always_reports_success:
  "success (fst (api_refresh h w st))
   \<and> message (fst (api_refresh h w st)) = ''Data refreshed successfully''
   \<and> count (fst (api_refresh h w st)) = length (fst (fetchEarningsData h w st))
   \<and> fst (api_refresh h (w\<lparr>fetch := \<lambda>fromDate toDate. FetchThrows\<rparr>) st)
       = \<lparr>success = True, message = ''Data refreshed successfully'', count = 49\<rparr>
   \<and> fst (api_refresh h (w\<lparr>fetch := \<lambda>fromDate toDate. NotArray\<rparr>) st)
       = \<lparr>success = True, message = ''Data refreshed successfully'', count = 49\<rparr>"
proof -
  have failing: "fetch_stage_fails h (w\<lparr>fetch := \<lambda>fromDate toDate. r\<rparr>)"
    if "r = FetchThrows \<or> r = NotArray" for r
    using that by (auto simp: fetch_stage_fails_def split: sum.splits)
  have "fst (fetchEarningsData h (w\<lparr>fetch := \<lambda>fromDate toDate. r\<rparr>) st)
          = getSampleData h (now_sample w)"
    if "r = FetchThrows \<or> r = NotArray" for r
    using fetch_stage_fails_returns [OF failing [OF that], of st] by simp
  then show ?thesis
    by (simp add: api_refresh_def split_def Let_def length_getSampleData)
qed

text \<open>
  C10. Every sequence that \<open>fetchEarningsData\<close> returns, from the API's records or from
  the sample data, has at least 2 cards and starts with the header card (value
  \<open>The Most Anticipated Earnings Releases\<close>) and the note card (value
  \<open>(only showing confirmed release dates)\<close>).
\<close>

theorem fetch_starts_with_header_and_note:
  "2 \<le> length (fst (fetchEarningsData h w st))
   \<and> cvalue (fst (fetchEarningsData h w st) ! 0) = ''The Most Anticipated Earnings Releases''
   \<and> cvalue (fst (fetchEarningsData h w st) ! 1) = ''(only showing confirmed release dates)''
   \<and> fst (fetchEarningsData h w st) ! 1 = note_card"
proof -
  obtain t rest where "fst (fetchEarningsData h w st) = header_card h t # note_card # rest"
    using fetch_starts by blast
  then show ?thesis
    by (simp add: header_card_def note_card_def)
qed

end
